theory Spec2Isabelle
  imports Main "HOL-Library.Sublist" "HOL-Library.Monad_Syntax"
begin

section \<open>JavaScript strings\<close>

text \<open>
  A JavaScript string is modelled as a \<^typ>\<open>string\<close>: a list of characters with codes
  0..255, that is, the strings whose code units lie in the Latin-1 range. The string
  operations used by the repository (\<^verbatim>\<open>toLowerCase\<close>, \<^verbatim>\<open>trim\<close>, the character classes
  \<^verbatim>\<open>\w\<close> and \<^verbatim>\<open>\s\<close>) map such strings to such strings, so the model is closed on them.
\<close>

definition code :: "char \<Rightarrow> nat" where
  "code c = of_char c"

text \<open>
  ECMAScript WhiteSpace and LineTerminator below U+0100: TAB, LF, VT, FF, CR, SP, NBSP.
  Both \<^verbatim>\<open>String.prototype.trim\<close> and the class \<^verbatim>\<open>\s\<close> use this set.
\<close>

definition isWhiteSpace :: "char \<Rightarrow> bool" where
  "isWhiteSpace c = (code c \<in> {9, 10, 11, 12, 13, 32, 160})"

definition isDigit :: "char \<Rightarrow> bool" where
  "isDigit c = (48 \<le> code c \<and> code c \<le> 57)"

definition isLowerAZ :: "char \<Rightarrow> bool" where
  "isLowerAZ c = (97 \<le> code c \<and> code c \<le> 122)"

definition isUpperAZ :: "char \<Rightarrow> bool" where
  "isUpperAZ c = (65 \<le> code c \<and> code c \<le> 90)"

text \<open>The class \<^verbatim>\<open>\w\<close> (no \<^verbatim>\<open>i\<close> or \<^verbatim>\<open>u\<close> flag): \<^verbatim>\<open>[A-Za-z0-9_]\<close>.\<close>

definition isWordChar :: "char \<Rightarrow> bool" where
  "isWordChar c = (isUpperAZ c \<or> isLowerAZ c \<or> isDigit c \<or> c = CHR ''_'')"

text \<open>
  \<^verbatim>\<open>toLowerCase\<close> on one Latin-1 character: A..Z and the accented capitals
  U+00C0..U+00DE (without the multiplication sign U+00D7) move up by 32.
\<close>

definition toLowerCase_char :: "char \<Rightarrow> char" where
  "toLowerCase_char c =
     (let n = code c in
      if (65 \<le> n \<and> n \<le> 90) \<or> (192 \<le> n \<and> n \<le> 222 \<and> n \<noteq> 215)
      then char_of (n + 32) else c)"

definition toLowerCase :: "string \<Rightarrow> string" where
  "toLowerCase s = map toLowerCase_char s"

definition trimStart :: "string \<Rightarrow> string" where
  "trimStart s = dropWhile isWhiteSpace s"

definition trimEnd :: "string \<Rightarrow> string" where
  "trimEnd s = rev (dropWhile isWhiteSpace (rev s))"

definition trim :: "string \<Rightarrow> string" where
  "trim s = trimEnd (trimStart s)"

text \<open>\<^verbatim>\<open>s.includes(sub)\<close>: \<^verbatim>\<open>sub\<close> occurs in \<^verbatim>\<open>s\<close> as a contiguous run.\<close>

fun str_includes :: "string \<Rightarrow> string \<Rightarrow> bool" where
  "str_includes [] sub = (sub = [])"
| "str_includes (c # cs) sub = (prefix sub (c # cs) \<or> str_includes cs sub)"

text \<open>\<^verbatim>\<open>s.split('T')[0]\<close>: the part of \<^verbatim>\<open>s\<close> before the first \<^verbatim>\<open>T\<close> (all of it if there is none).\<close>

definition split_T_0 :: "string \<Rightarrow> string" where
  "split_T_0 s = takeWhile (\<lambda>c. c \<noteq> CHR ''T'') s"


section \<open>JavaScript values\<close>

text \<open>
  The values the code meets where its types promise a string: the \<^verbatim>\<open>slug\<close> of the awaited
  \<^verbatim>\<open>params\<close>, and the \<^verbatim>\<open>name\<close> and \<^verbatim>\<open>message\<close> of a caught error. \<open>JObject\<close> is a plain
  object, one without a method \<^verbatim>\<open>includes\<close>.
\<close>

datatype jsval = JUndefined | JNull | JBool bool | JNum int | JStr string | JObject

fun falsy :: "jsval \<Rightarrow> bool" where
  "falsy JUndefined = True"
| "falsy JNull = True"
| "falsy (JBool b) = (\<not> b)"
| "falsy (JNum n) = (n = 0)"
| "falsy (JStr s) = (s = [])"
| "falsy JObject = False"

fun typeof :: "jsval \<Rightarrow> string" where
  "typeof JUndefined = ''undefined''"
| "typeof JNull = ''object''"
| "typeof (JBool b) = ''boolean''"
| "typeof (JNum n) = ''number''"
| "typeof (JStr s) = ''string''"
| "typeof JObject = ''object''"

text \<open>
  A thrown value: an instance of \<^verbatim>\<open>Error\<close> with what its properties \<^verbatim>\<open>name\<close> and
  \<^verbatim>\<open>message\<close> hold (strings as a rule, but nothing forces that), or a value that is not
  an instance of \<^verbatim>\<open>Error\<close>. \<^verbatim>\<open>new Error(m)\<close> has the name \<^verbatim>\<open>Error\<close> and the message \<open>m\<close>.
\<close>

datatype thrown = ErrorObj (err_name: jsval) (err_message: jsval) | NonError

definition new_Error :: "string \<Rightarrow> thrown" where
  "new_Error m = ErrorObj (JStr ''Error'') (JStr m)"


section \<open>The slug transform of the pre-save hook\<close>

text \<open>\<^verbatim>\<open>.replace(/[^\w\s-]/g, '')\<close>: every character outside the class is deleted.\<close>

definition removeSpecial :: "string \<Rightarrow> string" where
  "removeSpecial s = filter (\<lambda>c. isWordChar c \<or> isWhiteSpace c \<or> c = CHR ''-'') s"

text \<open>
  \<^verbatim>\<open>.replace(/\s+/g, '-')\<close>: scanning from the left, each maximal run of whitespace
  becomes one hyphen.
\<close>

function spacesToHyphen :: "string \<Rightarrow> string" where
  "spacesToHyphen [] = []"
| "spacesToHyphen (c # cs) =
     (if isWhiteSpace c then CHR ''-'' # spacesToHyphen (dropWhile isWhiteSpace cs)
      else c # spacesToHyphen cs)"
  by pat_completeness auto
termination
  by (relation "measure length") (auto simp: le_imp_less_Suc length_dropWhile_le)

text \<open>
  \<^verbatim>\<open>.replace(/--+/g, '-')\<close>: scanning from the left, each maximal run of two or more
  hyphens becomes one hyphen; a single hyphen does not match and stays.
\<close>

function collapseHyphens :: "string \<Rightarrow> string" where
  "collapseHyphens [] = []"
| "collapseHyphens (c # cs) =
     (if c = CHR ''-'' then CHR ''-'' # collapseHyphens (dropWhile (\<lambda>d. d = CHR ''-'') cs)
      else c # collapseHyphens cs)"
  by pat_completeness auto
termination
  by (relation "measure length") (auto simp: le_imp_less_Suc length_dropWhile_le)

text \<open>
  \<^verbatim>\<open>.replace(/^-+|-+$/g, '')\<close>: the run of hyphens at the start and the run of hyphens
  at the end are deleted.
\<close>

definition trimHyphens :: "string \<Rightarrow> string" where
  "trimHyphens s =
     rev (dropWhile (\<lambda>d. d = CHR ''-'') (rev (dropWhile (\<lambda>d. d = CHR ''-'') s)))"

text \<open>The chain of \<^verbatim>\<open>event.model.ts\<close>, lines 111 to 117, applied to the title.\<close>

definition slugify :: "string \<Rightarrow> string" where
  "slugify title =
     trimHyphens (collapseHyphens (spacesToHyphen (removeSpecial (trim (toLowerCase title)))))"


text \<open>
  The schema declares \<^verbatim>\<open>slug\<close> with \<^verbatim>\<open>lowercase: true, trim: true\<close> (lines 30 to 35):
  a value assigned to \<^verbatim>\<open>this.slug\<close> is lower-cased and trimmed before it is stored.
\<close>

definition slug_setters :: "string \<Rightarrow> string" where
  "slug_setters v = trim (toLowerCase v)"


section \<open>Dates\<close>

text \<open>
  A time value is a number of milliseconds since 1970-01-01T00:00:00Z, an \<^typ>\<open>int\<close>;
  \<^verbatim>\<open>NaN\<close> (an invalid \<^verbatim>\<open>Date\<close>) is \<^const>\<open>None\<close>. \<^verbatim>\<open>TimeClip\<close> of ECMAScript makes
  every time value beyond 8.64e15 ms invalid.
\<close>

definition msPerDay :: int where
  "msPerDay = 86400000"

definition TimeClip :: "int \<Rightarrow> int option" where
  "TimeClip t = (if \<bar>t\<bar> \<le> 8640000000000000 then Some t else None)"

text \<open>The proleptic Gregorian date (year, month 1..12, day 1..31) of a day number.\<close>

definition civil_from_days :: "int \<Rightarrow> int \<times> int \<times> int" where
  "civil_from_days n =
     (let z = n + 719468;
          era = z div 146097;
          doe = z - era * 146097;
          yoe = (doe - doe div 1460 + doe div 36524 - doe div 146096) div 365;
          doy = doe - (365 * yoe + yoe div 4 - yoe div 100);
          mp = (5 * doy + 2) div 153;
          d = doy - (153 * mp + 2) div 5 + 1;
          m = (if mp < 10 then mp + 3 else mp - 9);
          y = yoe + era * 400 + (if m \<le> 2 then 1 else 0)
      in (y, m, d))"

text \<open>The day number of a proleptic Gregorian date.\<close>

definition days_from_civil :: "int \<Rightarrow> int \<Rightarrow> int \<Rightarrow> int" where
  "days_from_civil y m d =
     (let y' = (if m \<le> 2 then y - 1 else y);
          era = y' div 400;
          yoe = y' - era * 400;
          doy = (153 * (if 2 < m then m - 3 else m + 9) + 2) div 5 + d - 1;
          doe = yoe * 365 + yoe div 4 - yoe div 100 + doy
      in era * 146097 + doe - 719468)"

definition isLeapYear :: "int \<Rightarrow> bool" where
  "isLeapYear y = (y mod 4 = 0 \<and> (y mod 100 \<noteq> 0 \<or> y mod 400 = 0))"

definition daysInMonth :: "int \<Rightarrow> int \<Rightarrow> int" where
  "daysInMonth y m =
     (if m = 2 then (if isLeapYear y then 29 else 28)
      else if m = 4 \<or> m = 6 \<or> m = 9 \<or> m = 11 then 30 else 31)"

text \<open>A number from 0 on as exactly \<open>w\<close> decimal digits (the low ones), zero-padded.\<close>

fun padDigits :: "nat \<Rightarrow> int \<Rightarrow> string" where
  "padDigits 0 n = []"
| "padDigits (Suc w) n = padDigits w (n div 10) @ [char_of (48 + n mod 10)]"

text \<open>
  \<^verbatim>\<open>Date.prototype.toISOString\<close> on a valid time value: the UTC date and time,
  \<^verbatim>\<open>YYYY-MM-DDTHH:mm:ss.sssZ\<close>, the year with four digits from 0 to 9999 and with a sign
  and six digits outside.
\<close>

definition isoYear :: "int \<Rightarrow> string" where
  "isoYear y =
     (if 0 \<le> y \<and> y \<le> 9999 then padDigits 4 y
      else (if y < 0 then ''-'' else ''+'') @ padDigits 6 \<bar>y\<bar>)"

definition toISOString :: "int \<Rightarrow> string" where
  "toISOString t =
     (let (y, m, d) = civil_from_days (t div msPerDay);
          ms = t mod msPerDay
      in isoYear y @ ''-'' @ padDigits 2 m @ ''-'' @ padDigits 2 d @ ''T''
         @ padDigits 2 (ms div 3600000) @ '':'' @ padDigits 2 (ms div 60000 mod 60) @ '':''
         @ padDigits 2 (ms div 1000 mod 60) @ ''.'' @ padDigits 3 (ms mod 1000) @ ''Z'')"

text \<open>
  \<^verbatim>\<open>new Date(s)\<close> for a string: the time value is \<^verbatim>\<open>Date.parse(s)\<close>, clipped. What
  \<^verbatim>\<open>Date.parse\<close> accepts beyond the ECMAScript date-time string format is left to the
  engine, so the parser is a parameter \<open>parse\<close> of the hook.
\<close>

definition new_Date :: "(string \<Rightarrow> int option) \<Rightarrow> string \<Rightarrow> int option" where
  "new_Date parse s = (case parse s of None \<Rightarrow> None | Some t \<Rightarrow> TimeClip t)"

subsection \<open>The date-time string format of ECMAScript\<close>

text \<open>
  The part of \<^verbatim>\<open>Date.parse\<close> that ECMA-262 fixes for every engine and every time zone
  of the host: \<^verbatim>\<open>YYYY-MM-DD\<close> (midnight UTC) and
  \<^verbatim>\<open>YYYY-MM-DDTHH:mm\<close>, \<^verbatim>\<open>YYYY-MM-DDTHH:mm:ss\<close>, \<^verbatim>\<open>YYYY-MM-DDTHH:mm:ss.sss\<close> followed by
  \<^verbatim>\<open>Z\<close> or an offset \<^verbatim>\<open>+HH:mm\<close>, \<^verbatim>\<open>-HH:mm\<close>, with a day that the month has. A result
  \<open>Some t\<close> is the time value of every engine. \<^const>\<open>None\<close> says only that the string is
  outside this part: an engine goes on with rules of its own there and may well accept
  the string (a day beyond the month's length, a date-time without offset read in the
  host's time zone, the forms \<^verbatim>\<open>YYYY\<close> and \<^verbatim>\<open>YYYY-MM\<close>, years with a sign, dates in
  words). The properties of the hook below are therefore stated for an arbitrary
  \<open>parse\<close>; this definition is used for single inputs only.
\<close>

fun digitsValue :: "string \<Rightarrow> nat \<Rightarrow> nat" where
  "digitsValue [] acc = acc"
| "digitsValue (c # cs) acc = digitsValue cs (10 * acc + (code c - 48))"

definition takeDigits :: "nat \<Rightarrow> string \<Rightarrow> (nat \<times> string) option" where
  "takeDigits n s =
     (if n \<le> length s \<and> list_all isDigit (take n s)
      then Some (digitsValue (take n s) 0, drop n s) else None)"

definition expect :: "char \<Rightarrow> string \<Rightarrow> string option" where
  "expect c s = (case s of [] \<Rightarrow> None | x # xs \<Rightarrow> if x = c then Some xs else None)"

text \<open>The offset in minutes east of UTC.\<close>

definition parseOffset :: "string \<Rightarrow> int option" where
  "parseOffset s =
     (if s = ''Z'' then Some 0
      else case s of
        [] \<Rightarrow> None
      | sg # r \<Rightarrow>
          if sg = CHR ''+'' \<or> sg = CHR ''-'' then
            do {
              (h, r1) \<leftarrow> takeDigits 2 r;
              r2 \<leftarrow> expect CHR '':'' r1;
              (m, r3) \<leftarrow> takeDigits 2 r2;
              if r3 = [] \<and> h \<le> 23 \<and> m \<le> 59
              then Some ((if sg = CHR ''-'' then - 1 else 1) * (int h * 60 + int m))
              else None
            }
          else None)"

text \<open>Seconds and milliseconds, both optional: \<^verbatim>\<open>[:ss[.sss]]\<close>; the rest is returned.\<close>

definition parseSeconds :: "string \<Rightarrow> (nat \<times> string) option" where
  "parseSeconds s =
     (case expect CHR '':'' s of
        None \<Rightarrow> Some (0, s)
      | Some r \<Rightarrow>
          do {
            (sec, r1) \<leftarrow> takeDigits 2 r;
            if 59 < sec then None
            else case expect CHR ''.'' r1 of
                   None \<Rightarrow> Some (sec * 1000, r1)
                 | Some r2 \<Rightarrow>
                     do { (ms, r3) \<leftarrow> takeDigits 3 r2; Some (sec * 1000 + ms, r3) }
          })"

definition Date_parse_format :: "string \<Rightarrow> int option" where
  "Date_parse_format s =
     do {
       (y, r1) \<leftarrow> takeDigits 4 s;
       r2 \<leftarrow> expect CHR ''-'' r1;
       (m, r3) \<leftarrow> takeDigits 2 r2;
       r4 \<leftarrow> expect CHR ''-'' r3;
       (d, r5) \<leftarrow> takeDigits 2 r4;
       if m < 1 \<or> 12 < m \<or> d < 1 \<or> daysInMonth (int y) (int m) < int d then None
       else
         let day = days_from_civil (int y) (int m) (int d) in
         if r5 = [] then Some (day * msPerDay)
         else
           do {
             r6 \<leftarrow> expect CHR ''T'' r5;
             (hh, r7) \<leftarrow> takeDigits 2 r6;
             r8 \<leftarrow> expect CHR '':'' r7;
             (mi, r9) \<leftarrow> takeDigits 2 r8;
             (ms, r10) \<leftarrow> parseSeconds r9;
             off \<leftarrow> parseOffset r10;
             if 23 < hh \<or> 59 < mi then None
             else Some (day * msPerDay + (int hh * 60 + int mi - off) * 60000 + int ms)
           }
     }"


section \<open>The Event document and its pre-save hook\<close>

text \<open>
  The hook reads and writes \<^verbatim>\<open>title\<close>, \<^verbatim>\<open>slug\<close>, \<^verbatim>\<open>date\<close> and \<^verbatim>\<open>time\<close>; the other fields
  of \<^verbatim>\<open>IEvent\<close> are the extension of the record. \<open>modifiedPaths\<close> is what
  \<^verbatim>\<open>this.isModified\<close> answers from.
\<close>

record event =
  title :: string
  slug :: string
  date :: string
  time :: string
  modifiedPaths :: "string list"

definition isModified :: "string \<Rightarrow> 'a event_scheme \<Rightarrow> bool" where
  "isModified path this = (path \<in> set (modifiedPaths this))"

text \<open>\<^verbatim>\<open>/^([0-1]?[0-9]|2[0-3]):[0-5][0-9]$/\<close>, the hour group and the minute part.\<close>

definition hourGroup :: "string \<Rightarrow> bool" where
  "hourGroup h =
     (case h of
        [a] \<Rightarrow> isDigit a
      | [a, b] \<Rightarrow> ((a = CHR ''0'' \<or> a = CHR ''1'') \<and> isDigit b)
                  \<or> (a = CHR ''2'' \<and> 48 \<le> code b \<and> code b \<le> 51)
      | _ \<Rightarrow> False)"

definition minutePart :: "string \<Rightarrow> bool" where
  "minutePart m =
     (case m of [a, b] \<Rightarrow> 48 \<le> code a \<and> code a \<le> 53 \<and> isDigit b | _ \<Rightarrow> False)"

text \<open>
  The hour group holds no colon, so a match splits the string at its first colon.
\<close>

definition timeRegex_test :: "string \<Rightarrow> bool" where
  "timeRegex_test s =
     (hourGroup (takeWhile (\<lambda>c. c \<noteq> CHR '':'') s)
      \<and> (case dropWhile (\<lambda>c. c \<noteq> CHR '':'') s of [] \<Rightarrow> False | c # m \<Rightarrow> minutePart m))"

text \<open>
  The hook, lines 108 to 139. The result is the document as the hook leaves it (it
  mutates \<^verbatim>\<open>this\<close> in place) and the argument of \<^verbatim>\<open>next\<close>: \<^const>\<open>None\<close> for \<^verbatim>\<open>next()\<close>,
  \<open>Some e\<close> for \<^verbatim>\<open>next(e)\<close>, with which Mongoose aborts the save.
\<close>

definition EventSchema_pre_save ::
    "(string \<Rightarrow> int option) \<Rightarrow> 'a event_scheme \<Rightarrow> 'a event_scheme \<times> thrown option" where
  "EventSchema_pre_save parse this0 =
     (let this1 = (if isModified ''title'' this0
                   then this0\<lparr>slug := slug_setters (slugify (title this0))\<rparr>
                   else this0);
          timeStep = (\<lambda>this.
            if isModified ''time'' this \<and> \<not> timeRegex_test (time this)
            then (this, Some (new_Error ''Time must be in HH:MM format''))
            else (this, None))
      in if isModified ''date'' this1 then
           (case new_Date parse (date this1) of
              None \<Rightarrow> (this1, Some (new_Error ''Invalid date format''))
            | Some dateObj \<Rightarrow> timeStep (this1\<lparr>date := split_T_0 (toISOString dateObj)\<rparr>))
         else timeStep this1)"


section \<open>The route handler\<close>

text \<open>\<^verbatim>\<open>NextResponse.json(body, { status })\<close>: the two bodies the handler builds.\<close>

datatype 'r body = ErrorBody string | SuccessBody 'r

record 'r response =
  status :: nat
  body :: "'r body"

definition json :: "'r body \<Rightarrow> nat \<Rightarrow> 'r response" where
  "json b st = \<lparr>status = st, body = b\<rparr>"

text \<open>
  The process the handler runs in: the environment variable, whether
  \<^verbatim>\<open>global.mongoose?.conn\<close> is set, how the storage answers (\<^verbatim>\<open>connect\<close> may reject,
  \<^verbatim>\<open>findOne(...).lean()\<close> may reject or give a plain record or \<^verbatim>\<open>null\<close>), the calls made
  to the storage so far and what \<^verbatim>\<open>console.error\<close> has printed.
\<close>

datatype call = Connect string | FindOne string

record 'r process =
  MONGODB_URI :: "string option"
  mongoose_conn :: bool
  connect :: "string \<Rightarrow> thrown option"
  findOne :: "string \<Rightarrow> thrown + 'r option"
  calls :: "call list"
  console_error :: "thrown list"

text \<open>\<^verbatim>\<open>connectToDatabase\<close>, lines 6 to 17.\<close>

definition connectToDatabase :: "'r process \<Rightarrow> (thrown + unit) \<times> 'r process" where
  "connectToDatabase w =
     (if MONGODB_URI w = None \<or> MONGODB_URI w = Some []
      then (Inl (new_Error ''MONGODB_URI environment variable is not defined''), w)
      else if mongoose_conn w then (Inr (), w)
      else
        (let uri = the (MONGODB_URI w);
             w' = w\<lparr>calls := calls w @ [Connect uri]\<rparr>
         in case connect w uri of Some e \<Rightarrow> (Inl e, w') | None \<Rightarrow> (Inr (), w')))"

text \<open>\<^verbatim>\<open>/^[a-z0-9-]+$/\<close>.\<close>

definition slugPattern_test :: "string \<Rightarrow> bool" where
  "slugPattern_test s =
     (s \<noteq> [] \<and> list_all (\<lambda>c. isLowerAZ c \<or> isDigit c \<or> c = CHR ''-'') s)"

text \<open>The first check of the handler, line 37; the trim is reached by strings only.\<close>

definition slugShapeInvalid :: "jsval \<Rightarrow> bool" where
  "slugShapeInvalid v =
     (falsy v \<or> typeof v \<noteq> ''string'' \<or> (case v of JStr s \<Rightarrow> trim s = [] | _ \<Rightarrow> True))"

text \<open>
  The body of the \<^verbatim>\<open>try\<close> block, lines 35 to 73: \<^const>\<open>Inl\<close> is a thrown value on its
  way to the \<^verbatim>\<open>catch\<close>. The awaited \<^verbatim>\<open>params\<close> either rejects or gives the value of
  \<^verbatim>\<open>slug\<close>.
\<close>

definition GET_try ::
    "'r process \<Rightarrow> thrown + jsval \<Rightarrow> (thrown + 'r response) \<times> 'r process" where
  "GET_try w params =
     (case params of
        Inl e \<Rightarrow> (Inl e, w)
      | Inr v \<Rightarrow>
          if slugShapeInvalid v
          then (Inr (json (ErrorBody ''Invalid slug parameter'') 400), w)
          else
            (let sanitizedSlug = toLowerCase (trim (case v of JStr s \<Rightarrow> s | _ \<Rightarrow> []))
             in if \<not> slugPattern_test sanitizedSlug
                then (Inr (json (ErrorBody ''Slug contains invalid characters'') 400), w)
                else
                  (case connectToDatabase w of
                     (Inl e, w1) \<Rightarrow> (Inl e, w1)
                   | (Inr u, w1) \<Rightarrow>
                       (let w2 = w1\<lparr>calls := calls w1 @ [FindOne sanitizedSlug]\<rparr>
                        in case findOne w1 sanitizedSlug of
                             Inl e \<Rightarrow> (Inl e, w2)
                           | Inr None \<Rightarrow> (Inr (json (ErrorBody ''Event not found'') 404), w2)
                           | Inr (Some ev) \<Rightarrow> (Inr (json (SuccessBody ev) 200), w2)))))"

text \<open>
  The handler is an \<^verbatim>\<open>async\<close> function: it resolves with a response, or it rejects when
  the \<^verbatim>\<open>catch\<close> block itself throws. The one place where that block can throw is line 81.
\<close>

datatype rejection = TypeError_in_catch

text \<open>
  \<^verbatim>\<open>error.message.includes('MONGODB_URI')\<close>, line 81. On a string it is the substring
  test. On \<^verbatim>\<open>undefined\<close> and \<^verbatim>\<open>null\<close> the property access throws a \<^verbatim>\<open>TypeError\<close>; on a
  boolean, a number and a plain object \<^verbatim>\<open>includes\<close> is \<^verbatim>\<open>undefined\<close> and the call throws a
  \<^verbatim>\<open>TypeError\<close>.
\<close>

fun message_includes :: "jsval \<Rightarrow> string \<Rightarrow> rejection + bool" where
  "message_includes (JStr m) sub = Inr (str_includes m sub)"
| "message_includes JUndefined sub = Inl TypeError_in_catch"
| "message_includes JNull sub = Inl TypeError_in_catch"
| "message_includes (JBool b) sub = Inl TypeError_in_catch"
| "message_includes (JNum n) sub = Inl TypeError_in_catch"
| "message_includes JObject sub = Inl TypeError_in_catch"

text \<open>
  The \<^verbatim>\<open>catch\<close> block after the logging, lines 78 to 101. \<^verbatim>\<open>error.name === 'CastError'\<close>
  is false of every name that is not that string.
\<close>

definition GET_catch :: "thrown \<Rightarrow> rejection + 'r response" where
  "GET_catch error =
     (case error of
        ErrorObj nm msg \<Rightarrow>
          (case message_includes msg ''MONGODB_URI'' of
             Inl t \<Rightarrow> Inl t
           | Inr found \<Rightarrow>
               if found
               then Inr (json (ErrorBody ''Database configuration error'') 500)
               else if nm = JStr ''CastError'' \<or> nm = JStr ''ValidationError''
               then Inr (json (ErrorBody ''Invalid request parameters'') 400)
               else Inr (json (ErrorBody ''Internal server error'') 500))
      | NonError \<Rightarrow> Inr (json (ErrorBody ''Internal server error'') 500))"

text \<open>
  \<^verbatim>\<open>GET\<close>, lines 29 to 103: the response, or the rejection, and the process afterwards.
  \<^verbatim>\<open>console.error\<close> runs before the \<^verbatim>\<open>catch\<close> block looks at the error.
\<close>

definition GET ::
    "'r process \<Rightarrow> thrown + jsval \<Rightarrow> (rejection + 'r response) \<times> 'r process" where
  "GET w params =
     (case GET_try w params of
        (Inr r, w') \<Rightarrow> (Inr r, w')
      | (Inl e, w') \<Rightarrow> (GET_catch e, w'\<lparr>console_error := console_error w' @ [e]\<rparr>))"


section \<open>Example inputs\<close>

text \<open>A process with a configured storage that holds one event.\<close>

definition demo_process :: "string process" where
  "demo_process =
     \<lparr>MONGODB_URI = Some ''mongodb://localhost/devevents'',
      mongoose_conn = False,
      connect = (\<lambda>uri. None),
      findOne = (\<lambda>s. if s = ''my-event-2025'' then Inr (Some ''Next.js Conf'') else Inr None),
      calls = [],
      console_error = []\<rparr>"

text \<open>The same process after the variable is gone, with a connection cached.\<close>

definition demo_unconfigured :: "string process" where
  "demo_unconfigured = demo_process\<lparr>MONGODB_URI := None, mongoose_conn := True\<rparr>"

text \<open>The same process with a storage whose query is rejected with a cast error.\<close>

definition demo_cast_failure :: "string process" where
  "demo_cast_failure =
     demo_process\<lparr>findOne :=
       (\<lambda>s. Inl (ErrorObj (JStr ''CastError'') (JStr ''Cast to string failed'')))\<rparr>"

text \<open>A storage whose cast error names the variable in its message.\<close>

definition demo_cast_failure_uri :: "string process" where
  "demo_cast_failure_uri =
     demo_process\<lparr>findOne :=
       (\<lambda>s. Inl (ErrorObj (JStr ''CastError'')
                     (JStr ''Cast to string failed for value MONGODB_URI at path slug'')))\<rparr>"

text \<open>A storage that rejects with an \<^verbatim>\<open>Error\<close> whose message is \<^verbatim>\<open>undefined\<close>.\<close>

definition demo_odd_message :: "string process" where
  "demo_odd_message =
     demo_process\<lparr>findOne := (\<lambda>s. Inl (ErrorObj (JStr ''Error'') JUndefined))\<rparr>"

text \<open>Events as a writer may hand them to the hook.\<close>

definition demo_event_offset :: event where
  "demo_event_offset =
     \<lparr>title = ''Evening meetup'', slug = ''evening-meetup'',
      date = ''2025-01-01T23:30:00-01:00'', time = ''23:30'',
      modifiedPaths = [''date'']\<rparr>"

definition demo_event_underscore :: event where
  "demo_event_underscore =
     \<lparr>title = ''Hello_World'', slug = [], date = ''2025-01-01'', time = ''19:00'',
      modifiedPaths = [''title'']\<rparr>"

definition demo_event_bad_date_and_time :: event where
  "demo_event_bad_date_and_time =
     \<lparr>title = ''React Summit'', slug = ''react-summit'', date = ''not a date'', time = ''25:00'',
      modifiedPaths = [''date'', ''time'']\<rparr>"

definition demo_event_bad_time :: event where
  "demo_event_bad_time =
     \<lparr>title = ''React Summit'', slug = ''react-summit'', date = ''2025-06-13'', time = ''25:00'',
      modifiedPaths = [''time'']\<rparr>"

definition demo_event_punctuation :: event where
  "demo_event_punctuation =
     \<lparr>title = ''!!!'', slug = ''old-slug'', date = ''2025-06-13'', time = ''9:30'',
      modifiedPaths = [''title'', ''time'']\<rparr>"


section \<open>Properties of the route handler\<close>

lemma trim_Nil_iff: "trim s = [] \<longleftrightarrow> list_all isWhiteSpace s"
proof
  assume "trim s = []"
  then have all: "\<forall>x\<in>set (dropWhile isWhiteSpace s). isWhiteSpace x"
    by (simp add: trim_def trimEnd_def trimStart_def dropWhile_eq_Nil_conv)
  have "dropWhile isWhiteSpace s = []"
  proof (rule ccontr)
    assume ne: "dropWhile isWhiteSpace s \<noteq> []"
    then have "\<not> isWhiteSpace (hd (dropWhile isWhiteSpace s))" by (rule hd_dropWhile)
    moreover from ne have "hd (dropWhile isWhiteSpace s) \<in> set (dropWhile isWhiteSpace s)" by simp
    ultimately show False using all by blast
  qed
  then show "list_all isWhiteSpace s"
    by (simp add: dropWhile_eq_Nil_conv list_all_iff)
next
  assume "list_all isWhiteSpace s"
  then have d: "dropWhile isWhiteSpace s = []"
    by (simp add: dropWhile_eq_Nil_conv list_all_iff)
  show "trim s = []"
    unfolding trim_def trimEnd_def trimStart_def d by simp
qed

lemma includes_config_message:
  "str_includes ''MONGODB_URI environment variable is not defined'' ''MONGODB_URI''"
  by simp

lemma GET_catch_config:
  "GET_catch (new_Error ''MONGODB_URI environment variable is not defined'')
     = Inr (json (ErrorBody ''Database configuration error'') 500)"
  by (simp add: GET_catch_def new_Error_def)

text \<open>
  Claim C6. A request whose \<^verbatim>\<open>slug\<close> parameter is missing, is not a string, or is a
  string that is empty or holds whitespace only gets status 400 with the body
  \<^verbatim>\<open>{ error: "Invalid slug parameter" }\<close>, whatever the process and the storage are;
  the process is left as it was.
\<close>

theorem GET_invalid_slug_parameter:
  assumes "v = JUndefined \<or> typeof v \<noteq> ''string'' \<or> (\<exists>s. v = JStr s \<and> list_all isWhiteSpace s)"
  shows "GET w (Inr v) = (Inr \<lparr>status = 400, body = ErrorBody ''Invalid slug parameter''\<rparr>, w)"
proof -
  have "slugShapeInvalid v"
    using assms by (cases v) (auto simp: slugShapeInvalid_def trim_Nil_iff)
  then show ?thesis
    by (simp add: GET_def GET_try_def json_def)
qed

theorem GET_invalid_slug_parameter_witness:
  "GET demo_process (Inr (JStr ''   ''))
     = (Inr \<lparr>status = 400, body = ErrorBody ''Invalid slug parameter''\<rparr>, demo_process)
   \<and> GET demo_process (Inr (JStr ''''))
     = (Inr \<lparr>status = 400, body = ErrorBody ''Invalid slug parameter''\<rparr>, demo_process)
   \<and> GET demo_process (Inr (JNum 7))
     = (Inr \<lparr>status = 400, body = ErrorBody ''Invalid slug parameter''\<rparr>, demo_process)
   \<and> GET demo_process (Inr JUndefined)
     = (Inr \<lparr>status = 400, body = ErrorBody ''Invalid slug parameter''\<rparr>, demo_process)"
proof -
  have ws: "list_all isWhiteSpace ''   ''" by code_simp
  show ?thesis
    using GET_invalid_slug_parameter [of "JStr ''   ''" demo_process]
          GET_invalid_slug_parameter [of "JStr ''''" demo_process]
          GET_invalid_slug_parameter [of "JNum 7" demo_process]
          GET_invalid_slug_parameter [of JUndefined demo_process] ws
    by simp
qed

text \<open>
  Claim C7. A slug that is not blank and that, trimmed and lower-cased, does not match
  \<^verbatim>\<open>^[a-z0-9-]+$\<close> gets status 400 with the body
  \<^verbatim>\<open>{ error: "Slug contains invalid characters" }\<close> in every process; the process is
  left as it was, so the storage is not asked and a record stored under such a slug
  cannot be fetched. \<^verbatim>\<open>Hello_World!\<close> is such a slug.
\<close>

theorem GET_slug_invalid_characters:
  assumes "trim s \<noteq> []" and "\<not> slugPattern_test (toLowerCase (trim s))"
  shows "GET w (Inr (JStr s))
           = (Inr \<lparr>status = 400, body = ErrorBody ''Slug contains invalid characters''\<rparr>, w)"
proof -
  from assms(1) have "s \<noteq> []" by (auto simp: trim_def trimEnd_def trimStart_def)
  with assms(1) have "\<not> slugShapeInvalid (JStr s)"
    by (simp add: slugShapeInvalid_def)
  with assms(2) show ?thesis
    by (simp add: GET_def GET_try_def json_def)
qed

theorem GET_slug_invalid_characters_witness:
  "trim ''Hello_World!'' \<noteq> [] \<and> toLowerCase (trim ''Hello_World!'') = ''hello_world!''
   \<and> \<not> slugPattern_test ''hello_world!''
   \<and> GET demo_process (Inr (JStr ''Hello_World!''))
       = (Inr \<lparr>status = 400, body = ErrorBody ''Slug contains invalid characters''\<rparr>, demo_process)"
proof -
  have a: "trim ''Hello_World!'' \<noteq> []" by code_simp
  have b: "toLowerCase (trim ''Hello_World!'') = ''hello_world!''" by code_simp
  have c: "\<not> slugPattern_test ''hello_world!''" by code_simp
  show ?thesis
    using GET_slug_invalid_characters [of "''Hello_World!''" demo_process] a b c by simp
qed

text \<open>
  Claim C9. When the slug fails the shape check or the character check, the response is
  a 400 that is the same in any two processes \<open>w1\<close> and \<open>w2\<close>, which may differ in
  \<^verbatim>\<open>MONGODB_URI\<close>, in the cached connection and in the storage; the process is left as it
  was: no call to the storage is made and nothing is logged.
\<close>

theorem GET_invalid_slug_before_storage:
  assumes "slugShapeInvalid v
           \<or> \<not> slugPattern_test (toLowerCase (trim (case v of JStr s \<Rightarrow> s | _ \<Rightarrow> [])))"
  shows "fst (GET w1 (Inr v)) = fst (GET w2 (Inr v))
         \<and> (\<exists>r. fst (GET w1 (Inr v)) = Inr r \<and> status r = 400)
         \<and> snd (GET w1 (Inr v)) = w1"
  using assms by (auto simp: GET_def GET_try_def json_def)

theorem GET_invalid_slug_before_storage_witness:
  "\<not> slugPattern_test (toLowerCase (trim ''Hello_World!''))
   \<and> fst (GET demo_process (Inr (JStr ''Hello_World!''))) = fst (GET demo_unconfigured (Inr (JStr ''Hello_World!'')))
   \<and> (\<exists>r. fst (GET demo_process (Inr (JStr ''Hello_World!''))) = Inr r \<and> status r = 400)
   \<and> snd (GET demo_process (Inr (JStr ''Hello_World!''))) = demo_process"
proof -
  have c: "\<not> slugPattern_test (toLowerCase (trim ''Hello_World!''))" by code_simp
  then have h: "slugShapeInvalid (JStr ''Hello_World!'')
           \<or> \<not> slugPattern_test
                 (toLowerCase (trim (case JStr ''Hello_World!'' of JStr s \<Rightarrow> s | _ \<Rightarrow> [])))"
    by simp
  from GET_invalid_slug_before_storage [OF h, of demo_process demo_unconfigured] c
  show ?thesis by blast
qed

text \<open>
  Claim C4. For a slug that passes both checks, in a process where \<^verbatim>\<open>connectToDatabase\<close>
  returns normally: when the storage finds no record under the trimmed, lower-cased slug
  the response is 404 with \<^verbatim>\<open>{ error: "Event not found" }\<close> (an error body, no data);
  when it finds the record \<open>ev\<close> the response is 200 with
  \<^verbatim>\<open>{ success: true, data: ev }\<close>.
\<close>

theorem GET_lookup_result:
  assumes "\<not> slugShapeInvalid (JStr s)"
      and "slugPattern_test (toLowerCase (trim s))"
      and "fst (connectToDatabase w) = Inr ()"
  shows "(findOne w (toLowerCase (trim s)) = Inr None \<longrightarrow>
            fst (GET w (Inr (JStr s))) = Inr \<lparr>status = 404, body = ErrorBody ''Event not found''\<rparr>)
         \<and> (\<forall>ev. findOne w (toLowerCase (trim s)) = Inr (Some ev) \<longrightarrow>
            fst (GET w (Inr (JStr s))) = Inr \<lparr>status = 200, body = SuccessBody ev\<rparr>)"
proof -
  obtain w1 where c: "connectToDatabase w = (Inr (), w1)"
    using assms(3) by (cases "connectToDatabase w") auto
  have f: "findOne w1 = findOne w"
    using c by (auto simp: connectToDatabase_def Let_def split: if_splits option.splits)
  show ?thesis
    using assms(1,2) c f by (simp add: GET_def GET_try_def json_def)
qed

theorem GET_lookup_result_witness:
  "fst (GET demo_process (Inr (JStr '' My-Event-2025 '')))
     = Inr \<lparr>status = 200, body = SuccessBody ''Next.js Conf''\<rparr>
   \<and> fst (GET demo_process (Inr (JStr ''my-event-2026'')))
     = Inr \<lparr>status = 404, body = ErrorBody ''Event not found''\<rparr>"
proof -
  have a1: "\<not> slugShapeInvalid (JStr '' My-Event-2025 '')" by code_simp
  have a2: "toLowerCase (trim '' My-Event-2025 '') = ''my-event-2025''" by code_simp
  have a3: "slugPattern_test ''my-event-2025''" by code_simp
  have b1: "\<not> slugShapeInvalid (JStr ''my-event-2026'')" by code_simp
  have b2: "toLowerCase (trim ''my-event-2026'') = ''my-event-2026''" by code_simp
  have b3: "slugPattern_test ''my-event-2026''" by code_simp
  have c: "fst (connectToDatabase demo_process) = Inr ()"
    by (simp add: connectToDatabase_def demo_process_def)
  have f1: "findOne demo_process ''my-event-2025'' = Inr (Some ''Next.js Conf'')"
    by (simp add: demo_process_def)
  have f2: "findOne demo_process ''my-event-2026'' = Inr None"
    by (simp add: demo_process_def)
  show ?thesis
    using GET_lookup_result [of "'' My-Event-2025 ''" demo_process]
          GET_lookup_result [of "''my-event-2026''" demo_process]
          a1 a2 a3 b1 b2 b3 c f1 f2
    by simp
qed

text \<open>
  Claim C3, as stated, fails: in a process where \<^verbatim>\<open>global.mongoose.conn\<close> is set and
  \<^verbatim>\<open>MONGODB_URI\<close> is not, \<^verbatim>\<open>connectToDatabase\<close> still throws the configuration error,
  and a request with a valid slug gets 500 "Database configuration error".
\<close>

theorem connectToDatabase_cached_counterexample:
  "mongoose_conn demo_unconfigured
   \<and> fst (connectToDatabase demo_unconfigured)
       = Inl (ErrorObj (JStr ''Error'') (JStr ''MONGODB_URI environment variable is not defined''))
   \<and> fst (GET demo_unconfigured (Inr (JStr ''my-event-2025'')))
       = Inr \<lparr>status = 500, body = ErrorBody ''Database configuration error''\<rparr>"
proof -
  have a: "\<not> slugShapeInvalid (JStr ''my-event-2025'')" by code_simp
  have b: "toLowerCase (trim ''my-event-2025'') = ''my-event-2025''" by code_simp
  have c: "slugPattern_test ''my-event-2025''" by code_simp
  show ?thesis
    using a b c
    by (simp add: demo_unconfigured_def demo_process_def connectToDatabase_def GET_def
        GET_try_def GET_catch_def new_Error_def json_def)
qed

text \<open>
  Claim C3, amended. \<^verbatim>\<open>connectToDatabase\<close> tests \<^verbatim>\<open>MONGODB_URI\<close> on every call, before it
  looks at the cached connection: whenever the variable is unset or empty it throws,
  cached connection or not, and a request with a valid slug gets 500 "Database
  configuration error". When the variable is set, a cached connection makes it return
  without calling \<^verbatim>\<open>connect\<close>.
\<close>

theorem connectToDatabase_checks_configuration_first:
  "(MONGODB_URI w = None \<or> MONGODB_URI w = Some [] \<longrightarrow>
      connectToDatabase w
        = (Inl (new_Error ''MONGODB_URI environment variable is not defined''), w)
      \<and> (\<not> slugShapeInvalid (JStr s) \<and> slugPattern_test (toLowerCase (trim s)) \<longrightarrow>
           fst (GET w (Inr (JStr s)))
             = Inr \<lparr>status = 500, body = ErrorBody ''Database configuration error''\<rparr>))
   \<and> (MONGODB_URI w \<noteq> None \<and> MONGODB_URI w \<noteq> Some [] \<and> mongoose_conn w \<longrightarrow>
      connectToDatabase w = (Inr (), w))"
proof -
  have "connectToDatabase w
          = (Inl (new_Error ''MONGODB_URI environment variable is not defined''), w)"
    if "MONGODB_URI w = None \<or> MONGODB_URI w = Some []"
    using that by (auto simp: connectToDatabase_def)
  moreover have "fst (GET w (Inr (JStr s)))
             = Inr \<lparr>status = 500, body = ErrorBody ''Database configuration error''\<rparr>"
    if "connectToDatabase w
          = (Inl (new_Error ''MONGODB_URI environment variable is not defined''), w)"
       "\<not> slugShapeInvalid (JStr s)" "slugPattern_test (toLowerCase (trim s))"
    using that by (simp add: GET_def GET_try_def GET_catch_config) (simp add: json_def)
  moreover have "connectToDatabase w = (Inr (), w)"
    if "MONGODB_URI w \<noteq> None \<and> MONGODB_URI w \<noteq> Some [] \<and> mongoose_conn w"
    using that by (simp add: connectToDatabase_def)
  ultimately show ?thesis by blast
qed

theorem connectToDatabase_checks_configuration_first_witness:
  "MONGODB_URI demo_unconfigured = None \<and> mongoose_conn demo_unconfigured
   \<and> connectToDatabase demo_unconfigured
        = (Inl (new_Error ''MONGODB_URI environment variable is not defined''), demo_unconfigured)
   \<and> fst (GET demo_unconfigured (Inr (JStr ''my-event-2025'')))
        = Inr \<lparr>status = 500, body = ErrorBody ''Database configuration error''\<rparr>
   \<and> connectToDatabase (demo_process\<lparr>mongoose_conn := True\<rparr>)
        = (Inr (), demo_process\<lparr>mongoose_conn := True\<rparr>)"
proof -
  have a: "\<not> slugShapeInvalid (JStr ''my-event-2025'')" by code_simp
  have b: "toLowerCase (trim ''my-event-2025'') = ''my-event-2025''" by code_simp
  have c: "slugPattern_test ''my-event-2025''" by code_simp
  have u: "MONGODB_URI demo_unconfigured = None" "mongoose_conn demo_unconfigured"
    by (simp_all add: demo_unconfigured_def)
  have p: "MONGODB_URI (demo_process\<lparr>mongoose_conn := True\<rparr>) \<noteq> None"
          "MONGODB_URI (demo_process\<lparr>mongoose_conn := True\<rparr>) \<noteq> Some []"
    by (simp_all add: demo_process_def)
  show ?thesis
    using connectToDatabase_checks_configuration_first [of demo_unconfigured "''my-event-2025''"]
          connectToDatabase_checks_configuration_first [of "demo_process\<lparr>mongoose_conn := True\<rparr>" "[]"]
          a b c u p
    by simp
qed

lemma GET_try_throws:
  "GET_try w params = (Inl e, w') \<Longrightarrow> fst (GET w params) = GET_catch e"
  by (simp add: GET_def)

text \<open>
  Claim C8, as stated, fails at two inputs. A cast error whose message holds
  \<^verbatim>\<open>MONGODB_URI\<close> is answered with 500 "Database configuration error", not with 400: the
  test of the message comes before the test of the name. And an \<^verbatim>\<open>Error\<close> whose message is
  not a string is not converted at all: \<^verbatim>\<open>error.message.includes\<close> throws inside the
  \<^verbatim>\<open>catch\<close> block and the handler rejects.
\<close>

theorem GET_failures_counterexample:
  "fst (GET demo_cast_failure_uri (Inr (JStr ''my-event-2025'')))
     = Inr \<lparr>status = 500, body = ErrorBody ''Database configuration error''\<rparr>
   \<and> fst (GET demo_odd_message (Inr (JStr ''my-event-2025''))) = Inl TypeError_in_catch"
proof -
  have a: "\<not> slugShapeInvalid (JStr ''my-event-2025'')" by code_simp
  have b: "toLowerCase (trim ''my-event-2025'') = ''my-event-2025''" by code_simp
  have c: "slugPattern_test ''my-event-2025''" by code_simp
  have i: "str_includes ''Cast to string failed for value MONGODB_URI at path slug'' ''MONGODB_URI''"
    by code_simp
  have "fst (GET demo_cast_failure_uri (Inr (JStr ''my-event-2025'')))
     = Inr \<lparr>status = 500, body = ErrorBody ''Database configuration error''\<rparr>"
    using a b c i
    by (simp add: demo_cast_failure_uri_def demo_process_def connectToDatabase_def GET_def
        GET_try_def GET_catch_def json_def)
  moreover have "fst (GET demo_odd_message (Inr (JStr ''my-event-2025''))) = Inl TypeError_in_catch"
    using a b c
    by (simp add: demo_odd_message_def demo_process_def connectToDatabase_def GET_def
        GET_try_def GET_catch_def)
  ultimately show ?thesis by simp
qed

text \<open>
  Claim C8, amended. A value thrown in the \<^verbatim>\<open>try\<close> block, by the awaited \<^verbatim>\<open>params\<close>, by
  \<^verbatim>\<open>connectToDatabase\<close> or by the query, is handed to the \<^verbatim>\<open>catch\<close> block. When that value
  is not an \<^verbatim>\<open>Error\<close>, or is an \<^verbatim>\<open>Error\<close> whose message is a string, the block answers with
  one response and nothing leaves the handler: 500 "Database configuration error" when
  the message holds \<^verbatim>\<open>MONGODB_URI\<close>, as that of the missing-configuration error does,
  whatever the name; otherwise 400 "Invalid request parameters" for the names
  \<^verbatim>\<open>CastError\<close> and \<^verbatim>\<open>ValidationError\<close>; otherwise, and for a value that is not an
  \<^verbatim>\<open>Error\<close>, 500 "Internal server error".
\<close>

theorem GET_failures_mapped:
  "fst (GET (w :: 'r process) (Inl e)) = GET_catch e
   \<and> (\<not> slugShapeInvalid (JStr s) \<and> slugPattern_test (toLowerCase (trim s)) \<longrightarrow>
        (fst (connectToDatabase w) = Inl e \<longrightarrow> fst (GET w (Inr (JStr s))) = GET_catch e)
        \<and> (fst (connectToDatabase w) = Inr () \<and> findOne w (toLowerCase (trim s)) = Inl e \<longrightarrow>
             fst (GET w (Inr (JStr s))) = GET_catch e))
   \<and> (MONGODB_URI w = None \<or> MONGODB_URI w = Some [] \<longrightarrow>
        (\<exists>c. fst (connectToDatabase w) = Inl c
           \<and> (GET_catch c :: rejection + 'r response)
               = Inr \<lparr>status = 500, body = ErrorBody ''Database configuration error''\<rparr>))
   \<and> (str_includes msg ''MONGODB_URI'' \<longrightarrow>
        (GET_catch (ErrorObj nm (JStr msg)) :: rejection + 'r response)
          = Inr \<lparr>status = 500, body = ErrorBody ''Database configuration error''\<rparr>)
   \<and> (\<not> str_includes msg ''MONGODB_URI''
        \<and> (nm = JStr ''CastError'' \<or> nm = JStr ''ValidationError'') \<longrightarrow>
        (GET_catch (ErrorObj nm (JStr msg)) :: rejection + 'r response)
          = Inr \<lparr>status = 400, body = ErrorBody ''Invalid request parameters''\<rparr>)
   \<and> (\<not> str_includes msg ''MONGODB_URI''
        \<and> nm \<noteq> JStr ''CastError'' \<and> nm \<noteq> JStr ''ValidationError'' \<longrightarrow>
        (GET_catch (ErrorObj nm (JStr msg)) :: rejection + 'r response)
          = Inr \<lparr>status = 500, body = ErrorBody ''Internal server error''\<rparr>)
   \<and> (GET_catch NonError :: rejection + 'r response)
        = Inr \<lparr>status = 500, body = ErrorBody ''Internal server error''\<rparr>"
proof -
  have p: "fst (GET w (Inl e)) = GET_catch e"
    by (rule GET_try_throws [of _ _ _ w]) (simp add: GET_try_def)
  have c: "fst (GET w (Inr (JStr s))) = GET_catch e"
    if h: "\<not> slugShapeInvalid (JStr s)" "slugPattern_test (toLowerCase (trim s))"
       "fst (connectToDatabase w) = Inl e"
  proof -
    obtain w1 where "connectToDatabase w = (Inl e, w1)"
      using h(3) by (cases "connectToDatabase w") auto
    with h(1,2) have "GET_try w (Inr (JStr s)) = (Inl e, w1)"
      by (simp add: GET_try_def)
    then show ?thesis by (rule GET_try_throws)
  qed
  have f: "fst (GET w (Inr (JStr s))) = GET_catch e"
    if h: "\<not> slugShapeInvalid (JStr s)" "slugPattern_test (toLowerCase (trim s))"
       "fst (connectToDatabase w) = Inr ()" "findOne w (toLowerCase (trim s)) = Inl e"
  proof -
    obtain w1 where w1: "connectToDatabase w = (Inr (), w1)"
      using h(3) by (cases "connectToDatabase w") auto
    then have "findOne w1 = findOne w"
      by (auto simp: connectToDatabase_def Let_def split: if_splits option.splits)
    with h(1,2,4) w1 have "\<exists>w2. GET_try w (Inr (JStr s)) = (Inl e, w2)"
      by (simp add: GET_try_def)
    then show ?thesis using GET_try_throws by blast
  qed
  have m: "\<exists>c. fst (connectToDatabase w) = Inl c
           \<and> (GET_catch c :: rejection + 'r response)
               = Inr \<lparr>status = 500, body = ErrorBody ''Database configuration error''\<rparr>"
    if "MONGODB_URI w = None \<or> MONGODB_URI w = Some []"
    using that by (auto simp: connectToDatabase_def GET_catch_def new_Error_def json_def)
  have k: "(GET_catch (ErrorObj nm (JStr msg)) :: rejection + 'r response)
             = Inr \<lparr>status = 500, body = ErrorBody ''Database configuration error''\<rparr>"
    if "str_includes msg ''MONGODB_URI''"
    using that by (simp add: GET_catch_def json_def)
  have v: "(GET_catch (ErrorObj nm (JStr msg)) :: rejection + 'r response)
             = Inr \<lparr>status = 400, body = ErrorBody ''Invalid request parameters''\<rparr>"
    if "\<not> str_includes msg ''MONGODB_URI''"
       "nm = JStr ''CastError'' \<or> nm = JStr ''ValidationError''"
    using that by (auto simp: GET_catch_def json_def)
  have i: "(GET_catch (ErrorObj nm (JStr msg)) :: rejection + 'r response)
             = Inr \<lparr>status = 500, body = ErrorBody ''Internal server error''\<rparr>"
    if "\<not> str_includes msg ''MONGODB_URI''" "nm \<noteq> JStr ''CastError''"
       "nm \<noteq> JStr ''ValidationError''"
    using that by (simp add: GET_catch_def json_def)
  have n: "(GET_catch NonError :: rejection + 'r response)
             = Inr \<lparr>status = 500, body = ErrorBody ''Internal server error''\<rparr>"
    by (simp add: GET_catch_def json_def)
  from p c f m k v i n show ?thesis by blast
qed

theorem GET_failures_mapped_witness:
  "fst (GET demo_cast_failure (Inr (JStr ''my-event-2025'')))
     = Inr \<lparr>status = 400, body = ErrorBody ''Invalid request parameters''\<rparr>
   \<and> fst (GET demo_process (Inl (ErrorObj (JStr ''TypeError'') (JStr ''params is not iterable''))))
     = Inr \<lparr>status = 500, body = ErrorBody ''Internal server error''\<rparr>
   \<and> fst (GET demo_unconfigured (Inr (JStr ''my-event-2025'')))
     = Inr \<lparr>status = 500, body = ErrorBody ''Database configuration error''\<rparr>"
proof -
  have a: "\<not> slugShapeInvalid (JStr ''my-event-2025'')" by code_simp
  have b: "toLowerCase (trim ''my-event-2025'') = ''my-event-2025''" by code_simp
  have c: "slugPattern_test ''my-event-2025''" by code_simp
  have d: "fst (connectToDatabase demo_cast_failure) = Inr ()"
    by (simp add: connectToDatabase_def demo_cast_failure_def demo_process_def)
  have f: "findOne demo_cast_failure ''my-event-2025''
             = Inl (ErrorObj (JStr ''CastError'') (JStr ''Cast to string failed''))"
    by (simp add: demo_cast_failure_def)
  have g: "\<not> str_includes ''Cast to string failed'' ''MONGODB_URI''" by code_simp
  have h: "\<not> str_includes ''params is not iterable'' ''MONGODB_URI''" by code_simp
  have u: "fst (connectToDatabase demo_unconfigured)
             = Inl (ErrorObj (JStr ''Error'')
                     (JStr ''MONGODB_URI environment variable is not defined''))"
    by (simp add: connectToDatabase_def demo_unconfigured_def new_Error_def)
  have j: "str_includes ''MONGODB_URI environment variable is not defined'' ''MONGODB_URI''"
    by simp
  show ?thesis
    using GET_failures_mapped [of demo_cast_failure
            "ErrorObj (JStr ''CastError'') (JStr ''Cast to string failed'')"
            "''my-event-2025''" "''Cast to string failed''" "JStr ''CastError''"]
          GET_failures_mapped [of demo_process
            "ErrorObj (JStr ''TypeError'') (JStr ''params is not iterable'')"
            "[]" "''params is not iterable''" "JStr ''TypeError''"]
          GET_failures_mapped [of demo_unconfigured
            "ErrorObj (JStr ''Error'') (JStr ''MONGODB_URI environment variable is not defined'')"
            "''my-event-2025''" "''MONGODB_URI environment variable is not defined''" "JStr ''Error''"]
          a b c d f g h u j
    by simp
qed

section \<open>Properties of the pre-save hook\<close>

lemma slug_setters_Nil: "slug_setters [] = []"
  by (simp add: slug_setters_def toLowerCase_def trim_def trimEnd_def trimStart_def)

lemma pre_save_time_unchanged:
  "time (fst (EventSchema_pre_save parse d)) = time d"
  by (auto simp: EventSchema_pre_save_def Let_def isModified_def split: option.splits)

lemma pre_save_outcome:
  "snd (EventSchema_pre_save parse d) =
     (if isModified ''date'' d \<and> new_Date parse (date d) = None
      then Some (new_Error ''Invalid date format'')
      else if isModified ''time'' d \<and> \<not> timeRegex_test (time d)
      then Some (new_Error ''Time must be in HH:MM format'')
      else None)"
  by (auto simp: EventSchema_pre_save_def Let_def isModified_def split: option.splits)

lemma pre_save_slug:
  "slug (fst (EventSchema_pre_save parse d)) =
     (if isModified ''title'' d then slug_setters (slugify (title d)) else slug d)"
  by (auto simp: EventSchema_pre_save_def Let_def isModified_def split: option.splits)

lemma pre_save_date:
  "date (fst (EventSchema_pre_save parse d)) =
     (if isModified ''date'' d
      then (case new_Date parse (date d) of None \<Rightarrow> date d
            | Some t \<Rightarrow> split_T_0 (toISOString t))
      else date d)"
  by (auto simp: EventSchema_pre_save_def Let_def isModified_def split: option.splits)

text \<open>
  Claim C5, as stated, fails: when the date is modified and unparsable as well, a time
  that does not match the pattern is not answered with the time error; the date check
  comes first and the hook ends with "Invalid date format".
\<close>

theorem pre_save_time_error_counterexample:
  "isModified ''time'' demo_event_bad_date_and_time
   \<and> \<not> timeRegex_test (time demo_event_bad_date_and_time)
   \<and> snd (EventSchema_pre_save Date_parse_format demo_event_bad_date_and_time)
       = Some (ErrorObj (JStr ''Error'') (JStr ''Invalid date format''))
   \<and> snd (EventSchema_pre_save Date_parse_format demo_event_bad_date_and_time)
       \<noteq> Some (ErrorObj (JStr ''Error'') (JStr ''Time must be in HH:MM format''))"
proof -
  have a: "\<not> timeRegex_test ''25:00''" by code_simp
  have b: "new_Date Date_parse_format ''not a date'' = None" by code_simp
  show ?thesis
    using a b
    by (simp add: pre_save_outcome demo_event_bad_date_and_time_def isModified_def new_Error_def)
qed

text \<open>
  Claim C5, amended. For a modified time field the hook never rewrites the value. When
  the date is modified and unparsable the hook has already ended with "Invalid date
  format". Otherwise a time that matches \<^verbatim>\<open>^([0-1]?[0-9]|2[0-3]):[0-5][0-9]$\<close> lets the
  hook call \<^verbatim>\<open>next()\<close> without an error, and any other time makes it call \<^verbatim>\<open>next\<close> with
  "Time must be in HH:MM format".
\<close>

theorem pre_save_time_check:
  assumes "isModified ''time'' d"
  shows "time (fst (EventSchema_pre_save parse d)) = time d
         \<and> (isModified ''date'' d \<and> new_Date parse (date d) = None \<longrightarrow>
              snd (EventSchema_pre_save parse d) = Some (new_Error ''Invalid date format''))
         \<and> (\<not> (isModified ''date'' d \<and> new_Date parse (date d) = None) \<longrightarrow>
              (timeRegex_test (time d) \<longrightarrow> snd (EventSchema_pre_save parse d) = None)
              \<and> (\<not> timeRegex_test (time d) \<longrightarrow>
                   snd (EventSchema_pre_save parse d)
                     = Some (new_Error ''Time must be in HH:MM format'')))"
  using assms by (simp add: pre_save_time_unchanged pre_save_outcome)

theorem pre_save_time_check_witness:
  "isModified ''time'' demo_event_bad_time
   \<and> EventSchema_pre_save Date_parse_format demo_event_bad_time
       = (demo_event_bad_time, Some (new_Error ''Time must be in HH:MM format''))
   \<and> isModified ''time'' demo_event_punctuation
   \<and> time (fst (EventSchema_pre_save Date_parse_format demo_event_punctuation)) = ''9:30''
   \<and> snd (EventSchema_pre_save Date_parse_format demo_event_punctuation) = None"
proof -
  have m1: "isModified ''time'' demo_event_bad_time" "\<not> isModified ''date'' demo_event_bad_time"
           "\<not> isModified ''title'' demo_event_bad_time"
    by (simp_all add: isModified_def demo_event_bad_time_def)
  have m2: "isModified ''time'' demo_event_punctuation" "\<not> isModified ''date'' demo_event_punctuation"
    by (simp_all add: isModified_def demo_event_punctuation_def)
  have t1: "\<not> timeRegex_test (time demo_event_bad_time)"
    unfolding demo_event_bad_time_def by simp code_simp
  have t2: "timeRegex_test (time demo_event_punctuation)"
    unfolding demo_event_punctuation_def by simp code_simp
  have t3: "time demo_event_punctuation = ''9:30''" by (simp add: demo_event_punctuation_def)
  have f: "fst (EventSchema_pre_save Date_parse_format demo_event_bad_time) = demo_event_bad_time"
    using m1 by (simp add: EventSchema_pre_save_def Let_def)
  show ?thesis
    using pre_save_time_check [of demo_event_bad_time Date_parse_format]
          pre_save_time_check [of demo_event_punctuation Date_parse_format]
          m1 m2 t1 t2 t3 f
    by (simp add: prod_eq_iff)
qed


text \<open>
  Claim C10. When the title is modified and the slug transform leaves nothing of it,
  the hook stores the empty slug and does not reject the write for it: the hook calls
  \<^verbatim>\<open>next()\<close> without an error whenever the date and time checks pass, and an error it
  does signal is the date error for a modified unparsable date or the time error for a
  modified time outside the pattern.
\<close>

theorem pre_save_empty_slug_accepted:
  assumes "isModified ''title'' d" and "slugify (title d) = []"
  shows "slug (fst (EventSchema_pre_save parse d)) = []
         \<and> ((\<not> isModified ''date'' d \<or> new_Date parse (date d) \<noteq> None)
              \<and> (\<not> isModified ''time'' d \<or> timeRegex_test (time d)) \<longrightarrow>
              snd (EventSchema_pre_save parse d) = None)
         \<and> (\<forall>e. snd (EventSchema_pre_save parse d) = Some e \<longrightarrow>
              (e = new_Error ''Invalid date format''
                 \<and> isModified ''date'' d \<and> new_Date parse (date d) = None)
              \<or> (e = new_Error ''Time must be in HH:MM format''
                 \<and> isModified ''time'' d \<and> \<not> timeRegex_test (time d)))"
proof -
  have "slug (fst (EventSchema_pre_save parse d)) = []"
    using assms by (simp add: pre_save_slug slug_setters_Nil)
  moreover have "snd (EventSchema_pre_save parse d) = None"
    if "(\<not> isModified ''date'' d \<or> new_Date parse (date d) \<noteq> None)
         \<and> (\<not> isModified ''time'' d \<or> timeRegex_test (time d))"
    using that by (auto simp: pre_save_outcome)
  moreover have "(e = new_Error ''Invalid date format''
                 \<and> isModified ''date'' d \<and> new_Date parse (date d) = None)
              \<or> (e = new_Error ''Time must be in HH:MM format''
                 \<and> isModified ''time'' d \<and> \<not> timeRegex_test (time d))"
    if "snd (EventSchema_pre_save parse d) = Some e" for e
    using that by (auto simp: pre_save_outcome split: if_splits)
  ultimately show ?thesis by blast
qed

theorem pre_save_empty_slug_accepted_witness:
  "isModified ''title'' demo_event_punctuation
   \<and> slugify (title demo_event_punctuation) = []
   \<and> slug (fst (EventSchema_pre_save Date_parse_format demo_event_punctuation)) = []
   \<and> snd (EventSchema_pre_save Date_parse_format demo_event_punctuation) = None"
proof -
  have m: "isModified ''title'' demo_event_punctuation" "\<not> isModified ''date'' demo_event_punctuation"
    by (simp_all add: isModified_def demo_event_punctuation_def)
  have s: "slugify (title demo_event_punctuation) = []"
    unfolding demo_event_punctuation_def by simp code_simp
  have t: "timeRegex_test (time demo_event_punctuation)"
    unfolding demo_event_punctuation_def by simp code_simp
  show ?thesis
    using pre_save_empty_slug_accepted [of demo_event_punctuation Date_parse_format] m s t
    by simp
qed

text \<open>
  What holds of claim C2: a modified date that does not parse makes the hook call
  \<^verbatim>\<open>next\<close> with "Invalid date format" and leaves the date as it was; a modified date
  that parses is replaced by the part of \<^verbatim>\<open>toISOString()\<close> before the \<^verbatim>\<open>T\<close>.
\<close>

lemma pre_save_unparsable_date:
  assumes "isModified ''date'' d" and "new_Date parse (date d) = None"
  shows "snd (EventSchema_pre_save parse d) = Some (new_Error ''Invalid date format'')
         \<and> date (fst (EventSchema_pre_save parse d)) = date d"
  using assms by (simp add: pre_save_outcome pre_save_date)

lemma pre_save_parsable_date:
  assumes "isModified ''date'' d" and "new_Date parse (date d) = Some t"
  shows "date (fst (EventSchema_pre_save parse d)) = split_T_0 (toISOString t)"
  using assms by (simp add: pre_save_date)

lemma Date_parse_format_offset_example:
  "new_Date Date_parse_format ''2025-01-01T23:30:00-01:00'' = Some 1735777800000"
  by code_simp

lemma toISOString_offset_example:
  "toISOString 1735777800000 = ''2025-01-02T00:30:00.000Z''"
  by code_simp

lemma Date_parse_format_date_only_example:
  "new_Date Date_parse_format ''2025-06-13'' = Some 1749772800000"
  by code_simp

lemma toISOString_date_only_example:
  "split_T_0 (toISOString 1749772800000) = ''2025-06-13''"
  by code_simp

lemma year_10000_example:
  "split_T_0 (toISOString 253402300800000) = ''+010000-01-01''"
  by code_simp

text \<open>
  Claim C2 at the input \<^verbatim>\<open>2025-01-01T23:30:00-01:00\<close>, a date-time in the ECMAScript
  format whose calendar date is 1 January 2025. The hook accepts it and stores
  \<^verbatim>\<open>2025-01-02\<close>: \<^verbatim>\<open>toISOString\<close> gives the date of the instant in UTC, one day later than
  the date that was written.
\<close>

theorem pre_save_date_shifts_to_utc_day:
  "EventSchema_pre_save Date_parse_format demo_event_offset
     = (demo_event_offset\<lparr>date := ''2025-01-02''\<rparr>, None)
   \<and> take 10 (date demo_event_offset) = ''2025-01-01''"
proof -
  have t: "timeRegex_test ''23:30''" by code_simp
  have s: "split_T_0 ''2025-01-02T00:30:00.000Z'' = ''2025-01-02''" by code_simp
  show ?thesis
    using t s
    by (simp add: EventSchema_pre_save_def Let_def isModified_def demo_event_offset_def
        Date_parse_format_offset_example toISOString_offset_example)
qed

text \<open>
  Claim C1 at the title \<^verbatim>\<open>Hello_World\<close>. The class \<^verbatim>\<open>\w\<close> holds the underscore, so the
  hook stores the slug \<^verbatim>\<open>hello_world\<close>, which is outside \<^verbatim>\<open>[a-z0-9-]\<close>; the route
  handler answers a request for that slug with 400 "Slug contains invalid characters".
\<close>

theorem pre_save_slug_keeps_underscore:
  "EventSchema_pre_save Date_parse_format demo_event_underscore
     = (demo_event_underscore\<lparr>slug := ''hello_world''\<rparr>, None)
   \<and> \<not> slugPattern_test ''hello_world''
   \<and> fst (GET demo_process (Inr (JStr ''hello_world'')))
       = Inr \<lparr>status = 400, body = ErrorBody ''Slug contains invalid characters''\<rparr>"
proof -
  have a: "slug_setters (slugify ''Hello_World'') = ''hello_world''" by code_simp
  have b: "\<not> slugPattern_test ''hello_world''" by code_simp
  have c: "\<not> slugShapeInvalid (JStr ''hello_world'')" by code_simp
  have d: "toLowerCase (trim ''hello_world'') = ''hello_world''" by code_simp
  have "EventSchema_pre_save Date_parse_format demo_event_underscore
     = (demo_event_underscore\<lparr>slug := ''hello_world''\<rparr>, None)"
    using a by (simp add: EventSchema_pre_save_def Let_def isModified_def demo_event_underscore_def)
  moreover have "fst (GET demo_process (Inr (JStr ''hello_world'')))
       = Inr \<lparr>status = 400, body = ErrorBody ''Slug contains invalid characters''\<rparr>"
    using b c d by (simp add: GET_def GET_try_def json_def)
  ultimately show ?thesis using b by simp
qed

section \<open>The shape of a derived slug\<close>

lemma code_char_of_small: "n < 256 \<Longrightarrow> code (char_of n) = n"
  by (simp add: code_def)

lemma toLowerCase_char_not_upper: "\<not> isUpperAZ (toLowerCase_char c)"
  by (auto simp: toLowerCase_char_def Let_def isUpperAZ_def code_char_of_small)

lemma toLowerCase_char_class:
  assumes "isWordChar (toLowerCase_char c)"
  shows "isLowerAZ (toLowerCase_char c) \<or> isDigit (toLowerCase_char c)
         \<or> toLowerCase_char c = CHR ''_''"
  using assms toLowerCase_char_not_upper [of c] by (simp add: isWordChar_def)

lemma set_trim: "set (trim s) \<subseteq> set s"
proof -
  have "set (trim s) \<subseteq> set (dropWhile isWhiteSpace s)"
    unfolding trim_def trimEnd_def trimStart_def
    using set_dropWhileD [of _ isWhiteSpace "rev (dropWhile isWhiteSpace s)"] by auto
  also have "\<dots> \<subseteq> set s"
    using set_dropWhileD [of _ isWhiteSpace s] by auto
  finally show ?thesis .
qed

lemma set_spacesToHyphen:
  "set (spacesToHyphen s) \<subseteq> {c \<in> set s. \<not> isWhiteSpace c} \<union> {CHR ''-''}"
proof (induction s rule: spacesToHyphen.induct)
  case 1
  then show ?case by simp
next
  case (2 c cs)
  show ?case
  proof (cases "isWhiteSpace c")
    case True
    with 2 have "set (spacesToHyphen (dropWhile isWhiteSpace cs))
                   \<subseteq> {c \<in> set (dropWhile isWhiteSpace cs). \<not> isWhiteSpace c} \<union> {CHR ''-''}"
      by simp
    moreover have "set (dropWhile isWhiteSpace cs) \<subseteq> set cs"
      using set_dropWhileD [of _ isWhiteSpace cs] by auto
    ultimately show ?thesis using True by auto
  next
    case False
    with 2 show ?thesis by auto
  qed
qed

lemma set_collapseHyphens: "set (collapseHyphens s) \<subseteq> set s"
proof (induction s rule: collapseHyphens.induct)
  case 1
  then show ?case by simp
next
  case (2 c cs)
  have "set (dropWhile (\<lambda>d. d = CHR ''-'') cs) \<subseteq> set cs"
    using set_dropWhileD [of _ "\<lambda>d. d = CHR ''-''" cs] by auto
  with 2 show ?case by (cases "c = CHR ''-''") auto
qed

lemma set_trimHyphens: "set (trimHyphens s) \<subseteq> set s"
proof -
  have "set (trimHyphens s) \<subseteq> set (dropWhile (\<lambda>d. d = CHR ''-'') s)"
    unfolding trimHyphens_def
    using set_dropWhileD [of _ "\<lambda>d. d = CHR ''-''" "rev (dropWhile (\<lambda>d. d = CHR ''-'') s)"]
    by auto
  also have "\<dots> \<subseteq> set s"
    using set_dropWhileD [of _ "\<lambda>d. d = CHR ''-''" s] by auto
  finally show ?thesis .
qed

lemma slugify_chars:
  assumes "c \<in> set (slugify t)"
  shows "isLowerAZ c \<or> isDigit c \<or> c = CHR ''_'' \<or> c = CHR ''-''"
proof -
  let ?r = "removeSpecial (trim (toLowerCase t))"
  from assms have "c \<in> set (spacesToHyphen ?r)"
    using set_trimHyphens set_collapseHyphens unfolding slugify_def by blast
  then have "c = CHR ''-'' \<or> (c \<in> set ?r \<and> \<not> isWhiteSpace c)"
    using set_spacesToHyphen [of ?r] by auto
  then show ?thesis
  proof
    assume "c = CHR ''-''"
    then show ?thesis by simp
  next
    assume h: "c \<in> set ?r \<and> \<not> isWhiteSpace c"
    then have cls: "isWordChar c \<or> c = CHR ''-''" and "c \<in> set (trim (toLowerCase t))"
      by (auto simp: removeSpecial_def)
    then have "c \<in> set (toLowerCase t)" using set_trim by blast
    then obtain x where "c = toLowerCase_char x" by (auto simp: toLowerCase_def)
    with cls show ?thesis using toLowerCase_char_class by blast
  qed
qed


lemma collapseHyphens_head:
  assumes "s \<noteq> []" and "hd s \<noteq> CHR ''-''"
  shows "collapseHyphens s \<noteq> [] \<and> hd (collapseHyphens s) = hd s"
  using assms by (cases s) auto

lemma collapseHyphens_after_run:
  "collapseHyphens (dropWhile (\<lambda>d. d = CHR ''-'') cs) \<noteq> CHR ''-'' # ys"
proof (cases "dropWhile (\<lambda>d. d = CHR ''-'') cs = []")
  case True
  show ?thesis unfolding True by simp
next
  case False
  then have "hd (dropWhile (\<lambda>d. d = CHR ''-'') cs) \<noteq> CHR ''-''"
    using hd_dropWhile [of "\<lambda>d. d = CHR ''-''" cs] by simp
  with False have "hd (collapseHyphens (dropWhile (\<lambda>d. d = CHR ''-'') cs)) \<noteq> CHR ''-''"
    using collapseHyphens_head by simp
  then show ?thesis by auto
qed

lemma collapseHyphens_no_double:
  "collapseHyphens s \<noteq> xs @ CHR ''-'' # CHR ''-'' # ys"
proof (induction s arbitrary: xs rule: collapseHyphens.induct)
  case 1
  then show ?case by simp
next
  case (2 c cs)
  show ?case
  proof (cases "c = CHR ''-''")
    case True
    show ?thesis
    proof (cases xs)
      case Nil
      with True show ?thesis using collapseHyphens_after_run [of cs ys] by simp
    next
      case (Cons x xs')
      with True show ?thesis using 2(1) [of xs'] by simp
    qed
  next
    case False
    show ?thesis
    proof (cases xs)
      case Nil
      with False show ?thesis by simp
    next
      case (Cons x xs')
      with False show ?thesis using 2(2) [of xs'] by simp
    qed
  qed
qed

lemma trimHyphens_infix: "\<exists>p q. s = p @ trimHyphens s @ q"
proof -
  let ?P = "\<lambda>d. d = CHR ''-''"
  let ?r = "dropWhile ?P s"
  have "rev (takeWhile ?P (rev ?r) @ dropWhile ?P (rev ?r)) = rev (rev ?r)"
    by (simp only: takeWhile_dropWhile_id)
  then have "rev (dropWhile ?P (rev ?r)) @ rev (takeWhile ?P (rev ?r)) = ?r"
    by (simp only: rev_append rev_rev_ident)
  then have r: "trimHyphens s @ rev (takeWhile ?P (rev ?r)) = ?r"
    by (simp only: trimHyphens_def)
  have "takeWhile ?P s @ ?r = s" by (rule takeWhile_dropWhile_id)
  with r have "takeWhile ?P s @ trimHyphens s @ rev (takeWhile ?P (rev ?r)) = s"
    by (simp only:)
  then show ?thesis by metis
qed

lemma last_dropWhile_same:
  "dropWhile P xs \<noteq> [] \<Longrightarrow> last (dropWhile P xs) = last xs"
proof (induction xs)
  case Nil
  then show ?case by simp
next
  case (Cons x xs)
  show ?case
  proof (cases "P x")
    case True
    with Cons have "dropWhile P xs \<noteq> []" by simp
    with Cons True show ?thesis by auto
  next
    case False
    then show ?thesis by simp
  qed
qed

lemma trimHyphens_ends:
  assumes "trimHyphens s \<noteq> []"
  shows "hd (trimHyphens s) \<noteq> CHR ''-'' \<and> last (trimHyphens s) \<noteq> CHR ''-''"
proof -
  define P where "P = (\<lambda>d. d = CHR ''-'')"
  define r where "r = dropWhile P s"
  define q where "q = dropWhile P (rev r)"
  have t: "trimHyphens s = rev q"
    by (simp only: trimHyphens_def q_def r_def P_def)
  with assms have q: "q \<noteq> []" by simp
  have hq: "\<not> P (hd q)"
    using q unfolding q_def by (rule hd_dropWhile)
  have r: "r \<noteq> []"
  proof
    assume "r = []"
    then have "q = []" unfolding q_def by simp
    with q show False by simp
  qed
  have hr: "\<not> P (hd r)"
    using r unfolding r_def by (rule hd_dropWhile)
  have "last q = last (rev r)"
    using q unfolding q_def by (rule last_dropWhile_same)
  also have "\<dots> = hd r" using r by (simp add: last_rev)
  finally have lq: "last q = hd r" .
  have "hd (rev q) = last q" using q by (simp add: hd_rev)
  with lq hr have a: "\<not> P (hd (rev q))" by simp
  have "last (rev q) = hd q" using q by (simp add: last_rev)
  with hq have b: "\<not> P (last (rev q))" by simp
  from a b show ?thesis by (simp add: t P_def)
qed

lemma slugify_no_double_hyphen: "slugify t \<noteq> xs @ ''--'' @ ys"
proof
  assume a: "slugify t = xs @ ''--'' @ ys"
  let ?c = "collapseHyphens (spacesToHyphen (removeSpecial (trim (toLowerCase t))))"
  obtain p q where "?c = p @ trimHyphens ?c @ q" using trimHyphens_infix by blast
  with a have "?c = (p @ xs) @ CHR ''-'' # CHR ''-'' # (ys @ q)"
    by (simp add: slugify_def)
  then show False using collapseHyphens_no_double by blast
qed

lemma slugify_ends:
  "slugify t = [] \<or> (hd (slugify t) \<noteq> CHR ''-'' \<and> last (slugify t) \<noteq> CHR ''-'')"
  using trimHyphens_ends unfolding slugify_def by blast

lemma toLowerCase_char_fixed:
  assumes "isLowerAZ c \<or> isDigit c \<or> c = CHR ''_'' \<or> c = CHR ''-''"
  shows "toLowerCase_char c = c \<and> \<not> isWhiteSpace c"
proof -
  have "code CHR ''_'' = 95" "code CHR ''-'' = 45" by (simp_all add: code_def)
  with assms show ?thesis
    by (auto simp: toLowerCase_char_def Let_def isLowerAZ_def isDigit_def isWhiteSpace_def)
qed

lemma slug_setters_slugify: "slug_setters (slugify t) = slugify t"
proof -
  have f: "\<forall>c \<in> set (slugify t). toLowerCase_char c = c \<and> \<not> isWhiteSpace c"
    using slugify_chars toLowerCase_char_fixed by blast
  then have l: "toLowerCase (slugify t) = slugify t"
    by (simp add: toLowerCase_def map_idI)
  have "trim u = u" if "\<forall>c \<in> set u. \<not> isWhiteSpace c" for u
  proof -
    from that have "dropWhile isWhiteSpace u = u" by (cases u) auto
    moreover from that have "dropWhile isWhiteSpace (rev u) = rev u" by (cases "rev u") auto
    ultimately show ?thesis by (simp add: trim_def trimEnd_def trimStart_def)
  qed
  with f have "trim (slugify t) = slugify t" by blast
  with l show ?thesis by (simp add: slug_setters_def)
qed

text \<open>
  What holds of claim C1 for every title: the slug the hook stores is the result of the
  chain; its characters lie in \<^verbatim>\<open>[a-z0-9_-]\<close>, it has no doubled hyphen, and it neither
  starts nor ends with a hyphen.
\<close>

lemma pre_save_slug_shape:
  assumes "isModified ''title'' d"
  shows "slug (fst (EventSchema_pre_save parse d)) = slugify (title d)
         \<and> (\<forall>c \<in> set (slugify (title d)).
               isLowerAZ c \<or> isDigit c \<or> c = CHR ''_'' \<or> c = CHR ''-'')
         \<and> (\<forall>xs ys. slugify (title d) \<noteq> xs @ ''--'' @ ys)
         \<and> (slugify (title d) = []
              \<or> (hd (slugify (title d)) \<noteq> CHR ''-'' \<and> last (slugify (title d)) \<noteq> CHR ''-''))"
  using assms slugify_chars slugify_no_double_hyphen slugify_ends
  by (simp add: pre_save_slug slug_setters_slugify)

section \<open>The patterns as languages\<close>

lemma hourGroup_no_colon:
  assumes "hourGroup h"
  shows "\<forall>c \<in> set h. c \<noteq> CHR '':''"
proof -
  have k: "code CHR '':'' = 58" by (simp add: code_def)
  from assms show ?thesis
    using k by (auto simp: hourGroup_def isDigit_def split: list.splits)
qed

text \<open>
  \<^const>\<open>timeRegex_test\<close> accepts exactly the strings made of an hour group, a colon and
  a minute part, which is the language of the pattern.
\<close>

lemma timeRegex_test_iff:
  "timeRegex_test s \<longleftrightarrow> (\<exists>h m. s = h @ CHR '':'' # m \<and> hourGroup h \<and> minutePart m)"
proof
  assume a: "timeRegex_test s"
  define h where "h = takeWhile (\<lambda>c. c \<noteq> CHR '':'') s"
  define r where "r = dropWhile (\<lambda>c. c \<noteq> CHR '':'') s"
  from a have hg: "hourGroup h" by (simp add: timeRegex_test_def h_def)
  from a obtain c m where r: "r = c # m" and mp: "minutePart m"
    by (auto simp: timeRegex_test_def r_def split: list.splits)
  have "r \<noteq> []" using r by simp
  then have "\<not> (hd r \<noteq> CHR '':'')" unfolding r_def by (rule hd_dropWhile)
  with r have c: "c = CHR '':''" by simp
  have "s = h @ r" by (simp add: h_def r_def)
  with r c hg mp show "\<exists>h m. s = h @ CHR '':'' # m \<and> hourGroup h \<and> minutePart m" by blast
next
  assume "\<exists>h m. s = h @ CHR '':'' # m \<and> hourGroup h \<and> minutePart m"
  then obtain h m where s: "s = h @ CHR '':'' # m" and hg: "hourGroup h" and mp: "minutePart m"
    by blast
  have nc: "\<And>c. c \<in> set h \<Longrightarrow> c \<noteq> CHR '':''" using hourGroup_no_colon [OF hg] by blast
  have t: "takeWhile (\<lambda>c. c \<noteq> CHR '':'') s = h"
    unfolding s using nc by (simp add: takeWhile_append2)
  have d: "dropWhile (\<lambda>c. c \<noteq> CHR '':'') s = CHR '':'' # m"
    unfolding s using nc by (simp add: dropWhile_append2)
  show "timeRegex_test s" by (simp add: timeRegex_test_def t d hg mp)
qed

lemma toLowerCase_char_outside:
  assumes "\<not> (isUpperAZ c \<or> isLowerAZ c \<or> isDigit c \<or> c = CHR ''-'')"
  shows "\<not> (isLowerAZ (toLowerCase_char c) \<or> isDigit (toLowerCase_char c)
            \<or> toLowerCase_char c = CHR ''-'')"
proof -
  have k: "code CHR ''-'' = 45" by (simp add: code_def)
  have big: "\<not> (isLowerAZ x \<or> isDigit x \<or> x = CHR ''-'')" if "224 \<le> code x" for x
    using that k by (auto simp: isLowerAZ_def isDigit_def)
  show ?thesis
  proof (cases "192 \<le> code c \<and> code c \<le> 222 \<and> code c \<noteq> 215")
    case True
    then have "toLowerCase_char c = char_of (code c + 32)"
      by (simp add: toLowerCase_char_def Let_def)
    moreover from True have "code (char_of (code c + 32)) = code c + 32"
      by (simp add: code_def)
    ultimately have "224 \<le> code (toLowerCase_char c)" using True by simp
    then show ?thesis by (rule big)
  next
    case False
    with assms have "toLowerCase_char c = c"
      by (auto simp: toLowerCase_char_def Let_def isUpperAZ_def)
    with assms show ?thesis by simp
  qed
qed

text \<open>
  A character outside \<^verbatim>\<open>[A-Za-z0-9-]\<close> in the trimmed slug, an underscore or a
  punctuation mark for instance, makes the pattern of the handler fail.
\<close>

lemma slugPattern_test_rejects:
  assumes "c \<in> set (trim s)"
      and "\<not> (isUpperAZ c \<or> isLowerAZ c \<or> isDigit c \<or> c = CHR ''-'')"
  shows "\<not> slugPattern_test (toLowerCase (trim s))"
proof -
  from assms(1) have "toLowerCase_char c \<in> set (toLowerCase (trim s))"
    by (simp add: toLowerCase_def)
  with toLowerCase_char_outside [OF assms(2)] show ?thesis
    by (auto simp: slugPattern_test_def list_all_iff)
qed

section \<open>The date the hook stores\<close>

lemma digit_char_not_T: "char_of (48 + n mod 10 :: int) \<noteq> CHR ''T''"
proof
  assume "char_of (48 + n mod 10 :: int) = CHR ''T''"
  then have "(of_char (char_of (48 + n mod 10 :: int)) :: int) = of_char CHR ''T''" by simp
  then have "(48 + n mod 10) mod 256 = (84 :: int)" by simp
  moreover have "0 \<le> n mod 10" "n mod 10 < 10" by simp_all
  ultimately show False by simp
qed

lemma padDigits_no_T: "CHR ''T'' \<notin> set (padDigits w n)"
  using digit_char_not_T by (induction w n rule: padDigits.induct) (auto simp: eq_commute)

lemma isoYear_no_T: "CHR ''T'' \<notin> set (isoYear y)"
  by (simp add: isoYear_def padDigits_no_T)

text \<open>
  The hook stores the calendar date that the parsed instant has in UTC, whatever offset
  or time of day the input was written with.
\<close>

lemma pre_save_stores_utc_date:
  assumes "isModified ''date'' d" and "new_Date parse (date d) = Some t"
      and "civil_from_days (t div msPerDay) = (y, m, dd)"
  shows "date (fst (EventSchema_pre_save parse d))
           = isoYear y @ ''-'' @ padDigits 2 m @ ''-'' @ padDigits 2 dd"
proof -
  let ?date = "isoYear y @ ''-'' @ padDigits 2 m @ ''-'' @ padDigits 2 dd"
  have n: "\<And>c. c \<in> set ?date \<Longrightarrow> c \<noteq> CHR ''T''"
    using isoYear_no_T [of y] padDigits_no_T [of 2 m] padDigits_no_T [of 2 dd] by auto
  obtain rest where "toISOString t = ?date @ CHR ''T'' # rest"
    using assms(3) by (simp add: toISOString_def Let_def)
  then have "split_T_0 (toISOString t) = ?date"
    using n by (simp only: split_T_0_def takeWhile_append2) simp
  with assms(1,2) show ?thesis by (simp add: pre_save_date)
qed

end
